theory Spec2Isabelle
  imports Main "HOL-Library.Sublist"
begin

chapter \<open>Running external commands: \<^verbatim>\<open>infrastructure/utilities/cli.py\<close>\<close>

text \<open>
  The module has three functions around \<^verbatim>\<open>subprocess\<close>: \<^verbatim>\<open>executeCommand\<close> runs a
  command and returns its stripped output, \<^verbatim>\<open>runWithOutput\<close> runs it with inherited
  streams, and \<^verbatim>\<open>runWithRetries\<close> calls \<^verbatim>\<open>runWithOutput\<close> until it succeeds or the
  number of attempts is used up. They are embedded as functions from the events that went
  before to a result (the value returned or the exception raised) and the events after;
  the process launcher, the ambient environment and the logger are the surroundings.
\<close>

section \<open>Python strings: strip, split, join\<close>

text \<open>
  \<^verbatim>\<open>cli.py\<close> is Python 2 (\<^verbatim>\<open>basestring\<close>); a command text is a byte string.
  \<^verbatim>\<open>str.strip()\<close> without argument removes the leading and trailing characters
  for which C's \<^verbatim>\<open>isspace\<close> holds: space, tab, newline, vertical tab, form feed and
  carriage return.
\<close>

definition isspace :: "char \<Rightarrow> bool" where
  "isspace c = (c = CHR '' '' \<or> (9 \<le> (of_char c :: nat) \<and> (of_char c :: nat) \<le> 13))"

definition str_lstrip :: "string \<Rightarrow> string" where
  "str_lstrip s = dropWhile isspace s"

definition str_rstrip :: "string \<Rightarrow> string" where
  "str_rstrip s = rev (dropWhile isspace (rev s))"

definition str_strip :: "string \<Rightarrow> string" where
  "str_strip s = str_rstrip (str_lstrip s)"

text \<open>
  \<^verbatim>\<open>s.split(sep)\<close> with an explicit one-character separator: every occurrence of the
  separator ends a token, so adjacent separators give empty tokens and the empty string
  gives one empty token.
\<close>

fun str_split :: "char \<Rightarrow> string \<Rightarrow> string list" where
  "str_split sep [] = [[]]"
| "str_split sep (c # cs) =
     (if c = sep then [] # str_split sep cs
      else (case str_split sep cs of
              [] \<Rightarrow> [[c]]
            | t # ts \<Rightarrow> (c # t) # ts))"

text \<open>\<^verbatim>\<open>sep.join(tokens)\<close>.\<close>

fun str_join :: "string \<Rightarrow> string list \<Rightarrow> string" where
  "str_join sep [] = []"
| "str_join sep [t] = t"
| "str_join sep (t # u # ts) = t @ sep @ str_join sep (u # ts)"

section \<open>Exceptions\<close>

text \<open>
  \<^verbatim>\<open>CommandFailedError\<close> is the module's own error and carries its message.
  \<^verbatim>\<open>CalledProcessError\<close> is what \<^verbatim>\<open>subprocess\<close> raises for a non-zero return code.
  \<open>PyError cls msg\<close> is any other instance of \<^verbatim>\<open>Exception\<close>, given by its class name and
  message (\<^verbatim>\<open>OSError\<close>, \<^verbatim>\<open>TypeError\<close>, \<^verbatim>\<open>ValueError\<close>, ...).
  \<open>NonException cls msg\<close> is an exception whose class is not derived from
  \<^verbatim>\<open>Exception\<close> (\<^verbatim>\<open>KeyboardInterrupt\<close>, \<^verbatim>\<open>SystemExit\<close>): \<^verbatim>\<open>except Exception\<close> does
  not catch it.
\<close>

datatype exn =
    CommandFailedError string
  | CalledProcessError int
  | PyError string string
  | NonException string string

section \<open>The \<^verbatim>\<open>%\<close> operator of byte strings\<close>

text \<open>
  \<^verbatim>\<open>format % args\<close> as CPython 2 evaluates it when \<^verbatim>\<open>args\<close> is a string or a tuple
  of strings and integers, which is all \<^verbatim>\<open>cli.py\<close> passes. A directive is
  \<^verbatim>\<open>%\<close>, flags among \<^verbatim>\<open>-+ #0\<close>, a width (digits or \<^verbatim>\<open>*\<close>), a precision
  (\<^verbatim>\<open>.\<close> and digits or \<^verbatim>\<open>*\<close>), a length modifier (\<^verbatim>\<open>h\<close>, \<^verbatim>\<open>l\<close>, \<^verbatim>\<open>L\<close>) and
  the conversion character.
\<close>

datatype fmt_arg = FStr string | FInt int

record directive =
  flags :: string
  width :: "nat option"
  prec :: "nat option"
  conv :: char

definition isflag :: "char \<Rightarrow> bool" where
  "isflag c = (c \<in> set ''-+ #0'')"

definition isdigit :: "char \<Rightarrow> bool" where
  "isdigit c = (c \<in> set ''0123456789'')"

definition digit_val :: "char \<Rightarrow> nat" where
  "digit_val c = of_char c - 48"

definition number :: "string \<Rightarrow> nat" where
  "number ds = foldl (\<lambda>n c. 10 * n + digit_val c) 0 ds"

definition digit_char :: "nat \<Rightarrow> char" where
  "digit_char n = ''0123456789abcdef'' ! (n mod 16)"

fun digits :: "nat \<Rightarrow> nat \<Rightarrow> string" where
  "digits base n =
     (if base < 2 \<or> n < base then [digit_char n]
      else digits base (n div base) @ [digit_char (n mod base)])"

text \<open>\<^verbatim>\<open>str(i)\<close> of an integer.\<close>

definition str_of_int :: "int \<Rightarrow> string" where
  "str_of_int i = (if i < 0 then CHR ''-'' # digits 10 (nat (- i)) else digits 10 (nat i))"

definition not_enough_arguments :: exn where
  "not_enough_arguments = PyError ''TypeError'' ''not enough arguments for format string''"

text \<open>A \<^verbatim>\<open>*\<close> width or precision takes the next argument, which must be an integer.\<close>

definition take_star :: "fmt_arg list \<Rightarrow> exn + (int \<times> fmt_arg list)" where
  "take_star args =
     (case args of
        [] \<Rightarrow> Inl not_enough_arguments
      | FInt i # rest \<Rightarrow> Inr (i, rest)
      | FStr _ # _ \<Rightarrow> Inl (PyError ''TypeError'' ''* wants int''))"

text \<open>The width: the value, whether a negative \<^verbatim>\<open>*\<close> asked for left justification,
  the rest of the format and the arguments left.\<close>

definition parse_width ::
  "string \<Rightarrow> fmt_arg list \<Rightarrow> exn + (nat option \<times> bool \<times> string \<times> fmt_arg list)" where
  "parse_width s args =
     (case s of
        [] \<Rightarrow> Inr (None, False, s, args)
      | c # r \<Rightarrow>
          if c = CHR ''*'' then
            (case take_star args of
               Inl e \<Rightarrow> Inl e
             | Inr (i, args') \<Rightarrow> Inr (Some (nat \<bar>i\<bar>), i < 0, r, args'))
          else if isdigit c then
            Inr (Some (number (takeWhile isdigit s)), False, dropWhile isdigit s, args)
          else Inr (None, False, s, args))"

definition parse_prec ::
  "string \<Rightarrow> fmt_arg list \<Rightarrow> exn + (nat option \<times> string \<times> fmt_arg list)" where
  "parse_prec s args =
     (case s of
        [] \<Rightarrow> Inr (None, s, args)
      | c # r \<Rightarrow>
          if c = CHR ''.'' then
            (case r of
               [] \<Rightarrow> Inr (Some 0, r, args)
             | c' # r' \<Rightarrow>
                 if c' = CHR ''*'' then
                   (case take_star args of
                      Inl e \<Rightarrow> Inl e
                    | Inr (i, args') \<Rightarrow> Inr (Some (nat i), r', args'))
                 else Inr (Some (number (takeWhile isdigit r)), dropWhile isdigit r, args))
          else Inr (None, s, args))"

definition skip_length :: "string \<Rightarrow> string" where
  "skip_length s =
     (case s of
        [] \<Rightarrow> []
      | c # r \<Rightarrow> if c \<in> set ''hlL'' then r else s)"

text \<open>The text after a \<^verbatim>\<open>%\<close>: the directive, the rest of the format, the arguments left.\<close>

definition parse_directive ::
  "string \<Rightarrow> fmt_arg list \<Rightarrow> exn + (directive \<times> string \<times> fmt_arg list)" where
  "parse_directive s args =
     (if s \<noteq> [] \<and> hd s = CHR ''('' then Inl (PyError ''TypeError'' ''format requires a mapping'')
      else
        (case parse_width (dropWhile isflag s) args of
           Inl e \<Rightarrow> Inl e
         | Inr (wd, ljust, s2, args2) \<Rightarrow>
             (case parse_prec s2 args2 of
                Inl e \<Rightarrow> Inl e
              | Inr (pr, s3, args3) \<Rightarrow>
                  (case skip_length s3 of
                     [] \<Rightarrow> Inl (PyError ''ValueError'' ''incomplete format'')
                   | c # rest \<Rightarrow>
                       Inr (\<lparr>flags = takeWhile isflag s @ (if ljust then ''-'' else []),
                             width = wd, prec = pr, conv = c\<rparr>, rest, args3)))))"

text \<open>Padding to the width with blanks, on the right under the \<^verbatim>\<open>-\<close> flag.\<close>

definition pad :: "directive \<Rightarrow> string \<Rightarrow> string" where
  "pad d t =
     (case width d of
        None \<Rightarrow> t
      | Some w \<Rightarrow>
          if CHR ''-'' \<in> set (flags d) then t @ replicate (w - length t) CHR '' ''
          else replicate (w - length t) CHR '' '' @ t)"

definition str_of :: "fmt_arg \<Rightarrow> string" where
  "str_of v = (case v of FStr s \<Rightarrow> s | FInt i \<Rightarrow> str_of_int i)"

text \<open>
  One conversion. \<open>idx\<close> is the index of the conversion character in the format, which
  the message for an unknown character quotes. The text of a number (conversions
  \<^verbatim>\<open>diuoxX\<close> and \<^verbatim>\<open>eEfFgG\<close> of an integer, which go through C's \<^verbatim>\<open>double\<close> and
  \<^verbatim>\<open>printf\<close>) and of \<^verbatim>\<open>repr\<close> is not computed here: it is the parameter \<open>render\<close>.
  What is computed is which conversions succeed and which raise.
\<close>

definition convert ::
  "(directive \<Rightarrow> fmt_arg \<Rightarrow> string) \<Rightarrow> directive \<Rightarrow> fmt_arg \<Rightarrow> nat \<Rightarrow> exn + string" where
  "convert render d v idx =
     (let c = conv d in
      if c = CHR ''s'' then
        Inr (pad d (case prec d of None \<Rightarrow> str_of v | Some p \<Rightarrow> take p (str_of v)))
      else if c = CHR ''r'' then Inr (render d v)
      else if c \<in> set ''iduoxX'' then
        (case v of
           FInt i \<Rightarrow> Inr (render d v)
         | FStr s \<Rightarrow>
             Inl (PyError ''TypeError''
                   (CHR ''%'' # (if c = CHR ''i'' then CHR ''d'' else c) #
                    '' format: a number is required, not str'')))
      else if c \<in> set ''eEfFgG'' then
        (case v of
           FInt i \<Rightarrow> Inr (render d v)
         | FStr s \<Rightarrow> Inl (PyError ''TypeError'' ''float argument required, not str''))
      else if c = CHR ''c'' then
        (case v of
           FStr s \<Rightarrow>
             if length s = 1 then Inr (pad d s)
             else Inl (PyError ''TypeError'' ''%c requires int or char'')
         | FInt i \<Rightarrow>
             if i < 0 then
               Inl (PyError ''OverflowError'' ''unsigned byte integer is less than minimum'')
             else if 255 < i then
               Inl (PyError ''OverflowError'' ''unsigned byte integer is greater than maximum'')
             else Inr (pad d [char_of i]))
      else
        Inl (PyError ''ValueError''
              (''unsupported format character '' @ [CHR 0x27, c, CHR 0x27] @ '' (0x'' @
               digits 16 (of_char c) @ '') at index '' @ digits 10 idx)))"

text \<open>
  The formatting loop: \<open>n\<close> characters of the format are behind, \<open>acc\<close> is the text
  produced so far. Arguments left over at the end are an error.
\<close>

lemma parse_width_length:
  "parse_width s args = Inr (wd, lj, rest, args') \<Longrightarrow> length rest \<le> length s"
  by (auto simp: parse_width_def length_dropWhile_le le_SucI
      split: list.splits if_splits sum.splits prod.splits)

lemma parse_prec_length:
  "parse_prec s args = Inr (pr, rest, args') \<Longrightarrow> length rest \<le> length s"
  by (auto simp: parse_prec_def length_dropWhile_le le_SucI
      split: list.splits if_splits sum.splits prod.splits)

lemma skip_length_length: "length (skip_length s) \<le> length s"
  by (auto simp: skip_length_def split: list.splits)

lemma parse_directive_length:
  assumes "parse_directive s args = Inr (d, rest, args')"
  shows "length rest < length s"
proof -
  from assms obtain wd lj s2 args2 pr s3 args3 c where
    w: "parse_width (dropWhile isflag s) args = Inr (wd, lj, s2, args2)" and
    p: "parse_prec s2 args2 = Inr (pr, s3, args3)" and
    k: "skip_length s3 = c # rest"
    by (auto simp: parse_directive_def split: if_splits sum.splits prod.splits list.splits)
  have "length (c # rest) \<le> length s3"
    using skip_length_length [of s3] k by simp
  also have "\<dots> \<le> length s2" using parse_prec_length [OF p] .
  also have "\<dots> \<le> length (dropWhile isflag s)" using parse_width_length [OF w] .
  also have "\<dots> \<le> length s" by (rule length_dropWhile_le)
  finally show ?thesis by simp
qed

function format_loop ::
  "(directive \<Rightarrow> fmt_arg \<Rightarrow> string) \<Rightarrow> nat \<Rightarrow> string \<Rightarrow> fmt_arg list \<Rightarrow> string \<Rightarrow> exn + string"
  where
  "format_loop render n [] args acc =
     (if args = [] then Inr acc
      else Inl (PyError ''TypeError'' ''not all arguments converted during string formatting''))"
| "format_loop render n (c # s) args acc =
     (if c \<noteq> CHR ''%'' then format_loop render (n + 1) s args (acc @ [c])
      else
        (case parse_directive s args of
           Inl e \<Rightarrow> Inl e
         | Inr (d, rest, args') \<Rightarrow>
             let n' = n + 1 + (length s - length rest) in
             if conv d = CHR ''%'' then format_loop render n' rest args' (acc @ pad d ''%'')
             else
               (case args' of
                  [] \<Rightarrow> Inl not_enough_arguments
                | v # args'' \<Rightarrow>
                    (case convert render d v (n' - 1) of
                       Inl e \<Rightarrow> Inl e
                     | Inr t \<Rightarrow> format_loop render n' rest args'' (acc @ t)))))"
  by pat_completeness auto
termination
  by (relation "measure (\<lambda>(render, n, fmt, args, acc). length fmt)")
    (auto dest: parse_directive_length)

definition py_format ::
  "(directive \<Rightarrow> fmt_arg \<Rightarrow> string) \<Rightarrow> string \<Rightarrow> fmt_arg list \<Rightarrow> exn + string" where
  "py_format render fmt args = format_loop render 0 fmt args []"

section \<open>Commands, the process launcher and the observable events\<close>

text \<open>
  A command is a string or a sequence; \<^verbatim>\<open>isinstance(command, basestring)\<close> tells them
  apart. Nothing checks what the items of a sequence are: an item is a string, or
  something else, of which its type name is kept (\<^verbatim>\<open>["sleep", 5]\<close> is
  \<open>[Str ''sleep'', NotStr ''int'']\<close>).
\<close>

datatype token = Str string | NotStr string

datatype command = RawCommand string | TokenizedCommand "token list"

fun is_string :: "token \<Rightarrow> bool" where
  "is_string (Str s) = True"
| "is_string (NotStr tn) = False"

fun strings_of :: "token list \<Rightarrow> string list" where
  "strings_of [] = []"
| "strings_of (Str s # ts) = s # strings_of ts"
| "strings_of (NotStr tn # ts) = strings_of ts"

text \<open>
  \<^verbatim>\<open>sep.join(seq)\<close> on a sequence: the first item that is not a string, at index \<open>i\<close>
  counted from \<open>n\<close>, raises \<^verbatim>\<open>TypeError\<close>.
\<close>

fun first_not_string :: "nat \<Rightarrow> token list \<Rightarrow> (nat \<times> string) option" where
  "first_not_string n [] = None"
| "first_not_string n (Str s # ts) = first_not_string (Suc n) ts"
| "first_not_string n (NotStr tn # ts) = Some (n, tn)"

definition sequence_join :: "string \<Rightarrow> token list \<Rightarrow> exn + string" where
  "sequence_join sep ts =
     (case first_not_string 0 ts of
        Some (i, tn) \<Rightarrow>
          Inl (PyError ''TypeError''
                (''sequence item '' @ digits 10 i @ '': expected string, '' @ tn @ '' found''))
      | None \<Rightarrow> Inr (str_join sep (strings_of ts)))"

type_synonym environ = "(string \<times> string) list"

type_synonym logger = string

text \<open>
  What one launch of a child process does: it runs to the end with a return code and,
  when its output is captured, the captured text; or the launch itself fails with an
  instance of \<^verbatim>\<open>Exception\<close> that is not \<^verbatim>\<open>CalledProcessError\<close> (\<^verbatim>\<open>OSError\<close> for a
  missing executable, \<^verbatim>\<open>TypeError\<close> for a malformed environment or argument, ...),
  given by class and message; or the call is left by an exception that is not an instance
  of \<^verbatim>\<open>Exception\<close> (\<^verbatim>\<open>KeyboardInterrupt\<close> while the child is waited for).
\<close>

datatype outcome =
    Exited int string
  | LaunchFailure string string
  | Interrupted string string

text \<open>The values handed to the logger.\<close>

datatype log_value =
    LStr string
  | LInt int
  | LList "token list"
  | LTuple "string \<times> string"

text \<open>
  Everything the module does to its surroundings, in order: the calls of
  \<^verbatim>\<open>diagnostics.printEnv\<close>, of the logger, of \<^verbatim>\<open>subprocess\<close> and of \<^verbatim>\<open>time.sleep\<close>.
\<close>

datatype event =
    PrintEnv environ "logger option"
  | LogDebug logger log_value "log_value list"
  | LogException logger log_value
  | CheckOutput "token list" environ
  | CheckCall "token list" environ
  | Sleep int

text \<open>
  The surroundings: the outcome of the \<open>n\<close>-th launch (counted from 0) for the given
  argument vector and environment, the ambient environment \<^verbatim>\<open>os.environ\<close>, which is
  the default of \<^verbatim>\<open>env\<close>, and the text of numbers under \<^verbatim>\<open>%\<close>.
\<close>

record world =
  launcher :: "nat \<Rightarrow> token list \<Rightarrow> environ \<Rightarrow> outcome"
  os_environ :: environ
  render :: "directive \<Rightarrow> fmt_arg \<Rightarrow> string"

fun is_launch :: "event \<Rightarrow> bool" where
  "is_launch (CheckOutput argv env) = True"
| "is_launch (CheckCall argv env) = True"
| "is_launch e = False"


fun is_printEnv :: "event \<Rightarrow> bool" where
  "is_printEnv (PrintEnv env l) = True"
| "is_printEnv e = False"

definition launches :: "event list \<Rightarrow> nat" where
  "launches tr = length (filter is_launch tr)"


text \<open>
  \<^verbatim>\<open>subprocess.check_output\<close> and \<^verbatim>\<open>subprocess.check_call\<close>: the child is launched
  and waited for; a return code other than 0 raises \<^verbatim>\<open>CalledProcessError\<close>.
\<close>

definition check_output ::
  "world \<Rightarrow> token list \<Rightarrow> environ \<Rightarrow> event list \<Rightarrow> (exn + string) \<times> event list" where
  "check_output w argv env tr =
     (case launcher w (launches tr) argv env of
        Exited rc out \<Rightarrow>
          (if rc = 0 then Inr out else Inl (CalledProcessError rc), tr @ [CheckOutput argv env])
      | LaunchFailure cls msg \<Rightarrow> (Inl (PyError cls msg), tr @ [CheckOutput argv env])
      | Interrupted cls msg \<Rightarrow> (Inl (NonException cls msg), tr @ [CheckOutput argv env]))"

definition check_call ::
  "world \<Rightarrow> token list \<Rightarrow> environ \<Rightarrow> event list \<Rightarrow> (exn + unit) \<times> event list" where
  "check_call w argv env tr =
     (case launcher w (launches tr) argv env of
        Exited rc out \<Rightarrow>
          (if rc = 0 then Inr () else Inl (CalledProcessError rc), tr @ [CheckCall argv env])
      | LaunchFailure cls msg \<Rightarrow> (Inl (PyError cls msg), tr @ [CheckCall argv env])
      | Interrupted cls msg \<Rightarrow> (Inl (NonException cls msg), tr @ [CheckCall argv env]))"

text \<open>What \<^verbatim>\<open>subprocess\<close> takes as argument vector: a string stands for the one-element
  vector of itself.\<close>

definition popen_args :: "command \<Rightarrow> token list" where
  "popen_args command = (case command of RawCommand s \<Rightarrow> [Str s] | TokenizedCommand ts \<Rightarrow> ts)"

text \<open>
  \<^verbatim>\<open>time.sleep\<close>: a negative duration is refused.
  The delay is modelled in whole seconds.
\<close>

definition sleep :: "int \<Rightarrow> event list \<Rightarrow> (exn + unit) \<times> event list" where
  "sleep delay tr =
     (if delay < 0 then (Inl (PyError ''IOError'' ''[Errno 22] Invalid argument''), tr)
      else (Inr (), tr @ [Sleep delay]))"

text \<open>
  Modelled from the spec: \<^verbatim>\<open>diagnostics.printEnv\<close> of
  \<^verbatim>\<open>infrastructure.utilities.logger\<close>, which is not among the sources: "print the
  given environment mapping via the given logger". The call is recorded with its
  two arguments.
\<close>

definition printEnv_call :: "environ \<Rightarrow> logger option \<Rightarrow> event list \<Rightarrow> event list" where
  "printEnv_call env logger tr = tr @ [PrintEnv env logger]"

section \<open>The three operations of \<^verbatim>\<open>cli.py\<close>\<close>

definition log_value_of :: "command \<Rightarrow> log_value" where
  "log_value_of command = (case command of RawCommand s \<Rightarrow> LStr s | TokenizedCommand ts \<Rightarrow> LList ts)"

text \<open>\<^verbatim>\<open>if logger: logger.debug(msg, *args)\<close>\<close>

definition debug :: "logger option \<Rightarrow> log_value \<Rightarrow> log_value list \<Rightarrow> event list \<Rightarrow> event list" where
  "debug logger msg args tr = (case logger of None \<Rightarrow> tr | Some l \<Rightarrow> tr @ [LogDebug l msg args])"

text \<open>
  Lines 54--57 and 119--122, the same in both functions:
  \<^verbatim>\<open>if printEnv: diagnostics.printEnv(env, logger)\<close> and
  \<^verbatim>\<open>if logger: logger.debug(command)\<close>.
\<close>

definition announce ::
  "environ \<Rightarrow> bool \<Rightarrow> logger option \<Rightarrow> command \<Rightarrow> event list \<Rightarrow> event list" where
  "announce env printEnv logger command tr =
     debug logger (log_value_of command) []
       (if printEnv then printEnv_call env logger tr else tr)"

text \<open>
  Lines 58--59 and 123--124:
  \<^verbatim>\<open>if isinstance(command, basestring): command = command.strip().split(" ")\<close>.
  The local variable \<^verbatim>\<open>command\<close> is bound anew.
\<close>

definition normalize_command :: "command \<Rightarrow> command" where
  "normalize_command command =
     (case command of
        RawCommand s \<Rightarrow> TokenizedCommand (map Str (str_split CHR '' '' (str_strip s)))
      | TokenizedCommand ts \<Rightarrow> command)"

text \<open>
  Lines 62--65 and 127--130: the message of the error, from the value \<^verbatim>\<open>command\<close> has
  when the handler runs. \<^verbatim>\<open>" ".join(command)\<close> is evaluated first and may raise.
\<close>

definition failed_to_execute :: "world \<Rightarrow> command \<Rightarrow> exn + string" where
  "failed_to_execute w command =
     (case command of
        RawCommand s \<Rightarrow> py_format (render w) ''Failed to execute command: %s'' [FStr s]
      | TokenizedCommand ts \<Rightarrow>
          (case sequence_join '' '' ts of
             Inl e \<Rightarrow> Inl e
           | Inr joined \<Rightarrow>
               py_format (render w) ''Failed to execute command: %s'' [FStr joined]))"

text \<open>\<^verbatim>\<open>raise CommandFailedError(errMessage)\<close>, when computing the message did not raise.\<close>

definition raise_CommandFailedError :: "exn + string \<Rightarrow> exn + 'a" where
  "raise_CommandFailedError errMessage =
     (case errMessage of Inl e \<Rightarrow> Inl e | Inr m \<Rightarrow> Inl (CommandFailedError m))"

definition effective_env :: "world \<Rightarrow> environ option \<Rightarrow> environ" where
  "effective_env w env = (case env of None \<Rightarrow> os_environ w | Some e \<Rightarrow> e)"

text \<open>
  \<^verbatim>\<open>executeCommand(command, env=os.environ, printEnv=False, logger=None)\<close>;
  \<open>env = None\<close> stands for the default. The result is the value returned or the exception
  raised, with the events appended to those that went before.
\<close>

definition executeCommand ::
  "world \<Rightarrow> command \<Rightarrow> environ option \<Rightarrow> bool \<Rightarrow> logger option \<Rightarrow> event list
     \<Rightarrow> (exn + string) \<times> event list" where
  "executeCommand w command env printEnv logger tr =
     (let env' = effective_env w env;
          tr2 = announce env' printEnv logger command tr;
          command' = normalize_command command
      in case check_output w (popen_args command') env' tr2 of
           (Inr out, tr3) \<Rightarrow> (Inr (str_strip out), tr3)
         | (Inl (CalledProcessError rc), tr3) \<Rightarrow>
             (raise_CommandFailedError (failed_to_execute w command'), tr3)
         | (Inl e, tr3) \<Rightarrow> (Inl e, tr3))"

text \<open>
  Lines 133--140, the handler of every other \<^verbatim>\<open>Exception\<close>: with a logger,
  \<^verbatim>\<open>logger.exception(errMessage)\<close>, where \<^verbatim>\<open>errMessage\<close> is a pair for a string command
  (line 136 has a comma where line 138 has \<^verbatim>\<open>%\<close>); then the exception \<open>e\<close> is raised
  again. An exception raised while the message is computed (by \<^verbatim>\<open>" ".join(command)\<close>
  on line 138) leaves the handler in place of \<open>e\<close>, before anything is logged.
\<close>

definition log_and_reraise ::
  "world \<Rightarrow> logger option \<Rightarrow> command \<Rightarrow> exn \<Rightarrow> event list \<Rightarrow> (exn + 'a) \<times> event list" where
  "log_and_reraise w logger command e tr =
     (case logger of
        None \<Rightarrow> (Inl e, tr)
      | Some l \<Rightarrow>
          (case command of
             RawCommand s \<Rightarrow>
               (Inl e, tr @ [LogException l (LTuple (''check_call failed for command=%s'', s))])
           | TokenizedCommand ts \<Rightarrow>
               (case sequence_join '' '' ts of
                  Inl e' \<Rightarrow> (Inl e', tr)
                | Inr joined \<Rightarrow>
                    (case py_format (render w) ''check_call failed for command=%s''
                            [FStr joined] of
                       Inl e' \<Rightarrow> (Inl e', tr)
                     | Inr errMessage \<Rightarrow> (Inl e, tr @ [LogException l (LStr errMessage)])))))"

text \<open>\<^verbatim>\<open>runWithOutput(command, env=os.environ, printEnv=False, logger=None)\<close>\<close>

definition runWithOutput ::
  "world \<Rightarrow> command \<Rightarrow> environ option \<Rightarrow> bool \<Rightarrow> logger option \<Rightarrow> event list
     \<Rightarrow> (exn + unit) \<times> event list" where
  "runWithOutput w command env printEnv logger tr =
     (let env' = effective_env w env;
          tr2 = announce env' printEnv logger command tr;
          command' = normalize_command command
      in case check_call w (popen_args command') env' tr2 of
           (Inr u, tr3) \<Rightarrow> (Inr (), tr3)
         | (Inl (CalledProcessError rc), tr3) \<Rightarrow>
             (raise_CommandFailedError (failed_to_execute w command'), tr3)
         | (Inl (NonException cls msg), tr3) \<Rightarrow> (Inl (NonException cls msg), tr3)
         | (Inl e, tr3) \<Rightarrow> log_and_reraise w logger command' e tr3)"

text \<open>
  The loop of \<^verbatim>\<open>runWithRetries\<close>, lines 87--96, from the current value of
  \<^verbatim>\<open>attempts\<close>. It ends by \<^verbatim>\<open>return\<close>, by an exception that is not caught, or
  because \<^verbatim>\<open>attempts < retries\<close> is false.
\<close>

datatype loop_exit = Returned | Raised exn | Exhausted

definition retry_notice :: string where
  "retry_notice =
     ''Attempt %s to '' @ [CHR 0x27] @ ''%s'' @ [CHR 0x27] @ '' failed, retrying in %s seconds...''"


function attempt_loop ::
  "world \<Rightarrow> command \<Rightarrow> int \<Rightarrow> int \<Rightarrow> bool \<Rightarrow> logger option \<Rightarrow> int \<Rightarrow> event list
     \<Rightarrow> loop_exit \<times> event list" where
  "attempt_loop w command retries delay printEnv logger attempts tr =
     (if attempts < retries then
        (case runWithOutput w command None printEnv logger tr of
           (Inr u, tr1) \<Rightarrow> (Returned, tr1)
         | (Inl (CommandFailedError m), tr1) \<Rightarrow>
             (case sleep delay
                     (debug logger (LStr retry_notice)
                        [LInt (attempts + 1), log_value_of command, LInt delay] tr1) of
                (Inl e, tr2) \<Rightarrow> (Raised e, tr2)
              | (Inr u, tr2) \<Rightarrow>
                  attempt_loop w command retries delay printEnv logger (attempts + 1) tr2)
         | (Inl e, tr1) \<Rightarrow> (Raised e, tr1))
      else (Exhausted, tr))"
  by pat_completeness auto
termination
  by (relation "measure (\<lambda>(w, command, retries, delay, printEnv, logger, attempts, tr).
        nat (retries - attempts))") auto

text \<open>Lines 98--101: the message after the loop.\<close>

definition failed_after :: "world \<Rightarrow> command \<Rightarrow> int \<Rightarrow> exn + string" where
  "failed_after w command retries =
     (case command of
        RawCommand s \<Rightarrow>
          py_format (render w) ''% failed after %s attempts'' [FStr s, FInt retries]
      | TokenizedCommand ts \<Rightarrow>
          (case sequence_join '' '' ts of
             Inl e \<Rightarrow> Inl e
           | Inr joined \<Rightarrow>
               py_format (render w) ''% failed after %s attempts'' [FStr joined, FInt retries]))"

text \<open>\<^verbatim>\<open>runWithRetries(command, retries=1, delay=1, printEnv=False, logger=None)\<close>\<close>

definition runWithRetries ::
  "world \<Rightarrow> command \<Rightarrow> int \<Rightarrow> int \<Rightarrow> bool \<Rightarrow> logger option \<Rightarrow> event list
     \<Rightarrow> (exn + unit) \<times> event list" where
  "runWithRetries w command retries delay printEnv logger tr =
     (case attempt_loop w command retries delay printEnv logger 0 tr of
        (Returned, tr1) \<Rightarrow> (Inr (), tr1)
      | (Raised e, tr1) \<Rightarrow> (Inl e, tr1)
      | (Exhausted, tr1) \<Rightarrow> (raise_CommandFailedError (failed_after w command retries), tr1))"

section \<open>Vocabulary of the properties\<close>

text \<open>
  The outcome of the launch a call makes when the events \<open>tr\<close> went before: the launcher
  is asked with the normalized command and the effective environment.
\<close>

definition child :: "world \<Rightarrow> command \<Rightarrow> environ option \<Rightarrow> event list \<Rightarrow> outcome" where
  "child w command env tr =
     launcher w (launches tr) (popen_args (normalize_command command)) (effective_env w env)"

text \<open>The child exits with a non-zero status; the child exits with status zero.\<close>

fun fails :: "outcome \<Rightarrow> bool" where
  "fails (Exited rc out) = (rc \<noteq> 0)"
| "fails oc = False"


text \<open>
  The items of the command are strings, which a command given as one string always
  satisfies. \<^verbatim>\<open>subprocess\<close> starts a child for no other argument vector, so a command
  whose child ran and exited is one of these. \<open>command_text\<close> is the text
  \<^verbatim>\<open>" ".join(command)\<close> of the tokens that reach the launcher.
\<close>

definition strings_only :: "command \<Rightarrow> bool" where
  "strings_only command =
     (case command of RawCommand s \<Rightarrow> True | TokenizedCommand ts \<Rightarrow> list_all is_string ts)"

definition command_text :: "command \<Rightarrow> string" where
  "command_text command = str_join '' '' (strings_of (popen_args (normalize_command command)))"

text \<open>
  The events after one attempt of \<^verbatim>\<open>runWithRetries\<close> whose child exits non-zero, when
  \<^verbatim>\<open>attempts\<close> had the given value before it: the call of \<^verbatim>\<open>runWithOutput\<close>, the retry
  notice and the sleep. \<open>after_failures\<close> is \<open>k\<close> such attempts in a row.
\<close>

definition after_failure ::
  "world \<Rightarrow> command \<Rightarrow> int \<Rightarrow> bool \<Rightarrow> logger option \<Rightarrow> int \<Rightarrow> event list \<Rightarrow> event list" where
  "after_failure w command delay printEnv logger attempts tr =
     debug logger (LStr retry_notice) [LInt (attempts + 1), log_value_of command, LInt delay]
       (announce (os_environ w) printEnv logger command tr @
        [CheckCall (popen_args (normalize_command command)) (os_environ w)]) @ [Sleep delay]"

fun after_failures ::
  "world \<Rightarrow> command \<Rightarrow> int \<Rightarrow> bool \<Rightarrow> logger option \<Rightarrow> nat \<Rightarrow> int \<Rightarrow> event list \<Rightarrow> event list"
  where
  "after_failures w command delay printEnv logger 0 attempts tr = tr"
| "after_failures w command delay printEnv logger (Suc k) attempts tr =
     after_failures w command delay printEnv logger k (attempts + 1)
       (after_failure w command delay printEnv logger attempts tr)"


text \<open>
  Six surroundings to run the operations in: a child that always exits with status 1;
  one that exits with status 1 twice and with 0 from then on; one that exits with status 1
  twice, after which the executable is gone; one where \<^verbatim>\<open>echo hello\<close> prints its
  line and nothing else can be started; one where every command of strings exits with
  status 0 and an argument that is not a string is refused, as \<^verbatim>\<open>os.execve\<close> does; and
  one where the user interrupts every wait.
\<close>

definition always_failing :: world where
  "always_failing =
     \<lparr>launcher = (\<lambda>n argv env. Exited 1 []), os_environ = [], render = (\<lambda>d v. [])\<rparr>"



definition echo_world :: world where
  "echo_world =
     \<lparr>launcher = (\<lambda>n argv env. if argv = [Str ''echo'', Str ''hello''] then Exited 0 (''hello'' @ [CHR 10])
                    else LaunchFailure ''OSError'' ''[Errno 2] No such file or directory''),
      os_environ = [], render = (\<lambda>d v. [])\<rparr>"



section \<open>Formatting the three messages\<close>

lemmas fmt_defs = py_format_def parse_directive_def parse_width_def parse_prec_def
  skip_length_def isflag_def isdigit_def convert_def pad_def str_of_def

lemma format_failed_to_execute:
  "py_format r ''Failed to execute command: %s'' [FStr c] =
     Inr (''Failed to execute command: '' @ c)"
  by (simp add: fmt_defs)


text \<open>
  In \<^verbatim>\<open>"% failed after %s attempts"\<close> the first directive is \<^verbatim>\<open>% f\<close>: the blank flag and
  the conversion \<^verbatim>\<open>f\<close>. It takes the first argument, the command text, which is not a
  number.
\<close>

lemma format_failed_after:
  "py_format r ''% failed after %s attempts'' (FStr c # rest) =
     Inl (PyError ''TypeError'' ''float argument required, not str'')"
  by (simp add: fmt_defs)

lemma first_not_string_None: "list_all is_string ts \<Longrightarrow> first_not_string n ts = None"
  by (induction n ts rule: first_not_string.induct) simp_all

lemma first_not_string_Some:
  "\<not> list_all is_string ts \<Longrightarrow> \<exists>i tn. first_not_string n ts = Some (i, tn)"
  by (induction n ts rule: first_not_string.induct) simp_all

lemma sequence_join_strings:
  "list_all is_string ts \<Longrightarrow> sequence_join sep ts = Inr (str_join sep (strings_of ts))"
  by (simp add: sequence_join_def first_not_string_None)

lemma sequence_join_not_strings:
  "\<not> list_all is_string ts \<Longrightarrow> \<exists>e. sequence_join sep ts = Inl e"
  using first_not_string_Some [of ts 0] by (auto simp: sequence_join_def)

lemma strings_of_map_Str: "strings_of (map Str ts) = ts"
  by (induction ts) simp_all

lemma list_all_is_string_map_Str: "list_all is_string (map Str ts)"
  by (induction ts) simp_all

lemma strings_only_normalize:
  "list_all is_string (popen_args (normalize_command command)) = strings_only command"
  by (cases command)
    (simp_all add: strings_only_def popen_args_def normalize_command_def
      list_all_is_string_map_Str)

lemma failed_to_execute_eq:
  "strings_only command \<Longrightarrow>
   failed_to_execute w (normalize_command command) =
     Inr (''Failed to execute command: '' @ command_text command)"
  by (cases command)
    (simp_all add: failed_to_execute_def normalize_command_def popen_args_def command_text_def
      strings_only_def sequence_join_strings list_all_is_string_map_Str
      format_failed_to_execute)

lemma failed_after_eq:
  "strings_only command \<Longrightarrow>
   failed_after w command retries =
     Inl (PyError ''TypeError'' ''float argument required, not str'')"
  by (cases command)
    (simp_all add: failed_after_def strings_only_def sequence_join_strings format_failed_after)

lemma failed_after_raises: "\<exists>e. failed_after w command retries = Inl e"
proof (cases "strings_only command")
  case True
  then show ?thesis by (simp add: failed_after_eq)
next
  case False
  then obtain ts where "command = TokenizedCommand ts" and "\<not> list_all is_string ts"
    by (cases command) (simp_all add: strings_only_def)
  then show ?thesis
    using sequence_join_not_strings [of ts "'' ''"] by (auto simp: failed_after_def)
qed

section \<open>One call of \<^verbatim>\<open>runWithOutput\<close>\<close>

lemma launches_append: "launches (tr @ tr') = launches tr + launches tr'"
  by (simp add: launches_def)


lemma launches_announce: "launches (announce env p l c tr) = launches tr"
  by (cases l) (simp_all add: announce_def debug_def printEnv_call_def launches_def)


lemma effective_env_None: "effective_env w None = os_environ w"
  by (simp add: effective_env_def)

lemma fails_cases: "fails oc \<Longrightarrow> \<exists>rc out. oc = Exited rc out \<and> rc \<noteq> 0"
  by (cases oc) simp_all


lemma raise_CommandFailedError_raises: "\<exists>e. raise_CommandFailedError m = Inl e"
  by (cases m) (simp_all add: raise_CommandFailedError_def)

lemma runWithOutput_success:
  assumes "child w command env tr = Exited 0 out"
  shows "runWithOutput w command env printEnv logger tr =
    (Inr (), announce (effective_env w env) printEnv logger command tr @
       [CheckCall (popen_args (normalize_command command)) (effective_env w env)])"
  using assms by (simp add: runWithOutput_def check_call_def launches_announce child_def Let_def)

lemma runWithOutput_nonzero:
  assumes "child w command env tr = Exited rc out" and "rc \<noteq> 0" and "strings_only command"
  shows "runWithOutput w command env printEnv logger tr =
    (Inl (CommandFailedError (''Failed to execute command: '' @ command_text command)),
     announce (effective_env w env) printEnv logger command tr @
       [CheckCall (popen_args (normalize_command command)) (effective_env w env)])"
  using assms
  by (simp add: runWithOutput_def check_call_def launches_announce child_def Let_def
      failed_to_execute_eq raise_CommandFailedError_def)

text \<open>With items that are not strings the handler of \<^verbatim>\<open>CalledProcessError\<close> raises too,
  whatever it is.\<close>

lemma runWithOutput_nonzero_events:
  assumes "child w command env tr = Exited rc out" and "rc \<noteq> 0"
  shows "snd (runWithOutput w command env printEnv logger tr) =
     announce (effective_env w env) printEnv logger command tr @
       [CheckCall (popen_args (normalize_command command)) (effective_env w env)]"
  using assms
  by (simp add: runWithOutput_def check_call_def launches_announce child_def Let_def)



lemma log_and_reraise_logged:
  "\<exists>e' logged. log_and_reraise w logger command e t = (Inl e', t @ logged) \<and>
     list_all (\<lambda>ev. \<exists>l m. ev = LogException l m) logged"
  by (cases logger; cases command)
    (auto simp: log_and_reraise_def split: sum.splits)


lemma runWithOutput_interrupted:
  assumes "child w command env tr = Interrupted cls msg"
  shows "runWithOutput w command env printEnv logger tr =
    (Inl (NonException cls msg),
     announce (effective_env w env) printEnv logger command tr @
       [CheckCall (popen_args (normalize_command command)) (effective_env w env)])"
  using assms
  by (simp add: runWithOutput_def check_call_def launches_announce child_def Let_def)

section \<open>The retry loop\<close>

declare attempt_loop.simps [simp del]

lemma launches_after_failure:
  "launches (after_failure w command delay printEnv logger attempts tr) = Suc (launches tr)"
  by (cases logger)
    (simp_all add: after_failure_def debug_def launches_append launches_announce,
      simp_all add: launches_def)


lemma launches_after_failures:
  "launches (after_failures w command delay printEnv logger k attempts tr) = launches tr + k"
  by (induction k arbitrary: attempts tr) (simp_all add: launches_after_failure)


lemma attempt_loop_exhausted:
  "\<not> attempts < retries \<Longrightarrow>
     attempt_loop w command retries delay printEnv logger attempts tr = (Exhausted, tr)"
  by (simp add: attempt_loop.simps)

lemma attempt_loop_retry:
  assumes "attempts < retries" and "fails (child w command None tr)" and "0 \<le> delay"
    and "strings_only command"
  shows "attempt_loop w command retries delay printEnv logger attempts tr =
     attempt_loop w command retries delay printEnv logger (attempts + 1)
       (after_failure w command delay printEnv logger attempts tr)"
proof -
  from assms(2) obtain rc out where oc: "child w command None tr = Exited rc out" "rc \<noteq> 0"
    using fails_cases by blast
  show ?thesis
    using assms(1,3)
    by (subst attempt_loop.simps)
      (simp add: runWithOutput_nonzero [OF oc assms(4)] sleep_def after_failure_def
        effective_env_None)
qed



text \<open>\<open>k\<close> attempts in a row whose child exits non-zero leave the loop where it is after
  them, as long as \<^verbatim>\<open>retries\<close> allows them and the delay is accepted by \<^verbatim>\<open>time.sleep\<close>.\<close>

lemma attempt_loop_failures:
  assumes "\<forall>i<k. fails (launcher w (launches tr + i)
              (popen_args (normalize_command command)) (os_environ w))"
    and "0 \<le> delay" and "attempts + int k \<le> retries" and "strings_only command"
  shows "attempt_loop w command retries delay printEnv logger attempts tr =
     attempt_loop w command retries delay printEnv logger (attempts + int k)
       (after_failures w command delay printEnv logger k attempts tr)"
  using assms
proof (induction k arbitrary: attempts tr)
  case 0
  then show ?case by simp
next
  case (Suc k)
  from Suc.prems(1) have first: "fails (child w command None tr)"
    by (auto simp: child_def effective_env_None dest: spec [of _ 0])
  have rest: "\<forall>i<k. fails (launcher w
      (launches (after_failure w command delay printEnv logger attempts tr) + i)
      (popen_args (normalize_command command)) (os_environ w))"
    using Suc.prems(1) by (auto simp: launches_after_failure dest: spec [of _ "Suc i" for i])
  have "attempt_loop w command retries delay printEnv logger attempts tr =
     attempt_loop w command retries delay printEnv logger (attempts + 1)
       (after_failure w command delay printEnv logger attempts tr)"
    using Suc.prems(2,3,4) first by (intro attempt_loop_retry) auto
  also have "\<dots> = attempt_loop w command retries delay printEnv logger (attempts + 1 + int k)
       (after_failures w command delay printEnv logger k (attempts + 1)
          (after_failure w command delay printEnv logger attempts tr))"
    using Suc.prems(2,3,4) rest by (intro Suc.IH) auto
  finally show ?case by (simp add: add.assoc)
qed

section \<open>Facts about strip, split and join\<close>

lemma str_strip_decomp:
  "s = takeWhile isspace s @ str_strip s @ rev (takeWhile isspace (rev (dropWhile isspace s)))"
proof -
  let ?t = "dropWhile isspace s"
  have "?t = rev (takeWhile isspace (rev ?t) @ dropWhile isspace (rev ?t))"
    by (simp only: takeWhile_dropWhile_id rev_rev_ident)
  also have "\<dots> = rev (dropWhile isspace (rev ?t)) @ rev (takeWhile isspace (rev ?t))"
    by (rule rev_append)
  finally have "?t = str_strip s @ rev (takeWhile isspace (rev ?t))"
    by (simp only: str_strip_def str_rstrip_def str_lstrip_def)
  moreover have "s = takeWhile isspace s @ ?t" by simp
  ultimately show ?thesis by metis
qed

lemma str_strip_last: "str_strip s \<noteq> [] \<Longrightarrow> \<not> isspace (last (str_strip s))"
  by (simp add: str_strip_def str_rstrip_def last_rev hd_dropWhile)

lemma str_strip_hd:
  assumes "str_strip s \<noteq> []"
  shows "\<not> isspace (hd (str_strip s))"
proof -
  let ?t = "dropWhile isspace s"
  have t: "?t = str_strip s @ rev (takeWhile isspace (rev ?t))"
    using str_strip_decomp [of s] by (metis same_append_eq takeWhile_dropWhile_id)
  with assms have "?t \<noteq> []" by (metis Nil_is_append_conv)
  then have "\<not> isspace (hd ?t)" by (rule hd_dropWhile)
  moreover have "hd ?t = hd (str_strip s)"
    using assms t by (metis hd_append2)
  ultimately show ?thesis by simp
qed

lemma str_split_not_Nil: "str_split sep s \<noteq> []"
  by (induction s) (auto split: list.splits)

lemma str_join_Cons_Cons: "str_join sep ((c # t) # ts) = c # str_join sep (t # ts)"
  by (cases ts) simp_all

lemma str_join_Nil_Cons: "ts \<noteq> [] \<Longrightarrow> str_join sep ([] # ts) = sep @ str_join sep ts"
  by (cases ts) simp_all

lemma str_join_split: "str_join [sep] (str_split sep s) = s"
proof (induction s)
  case Nil
  show ?case by simp
next
  case (Cons c s)
  show ?case
  proof (cases "c = sep")
    case True
    then show ?thesis
      using Cons.IH by (simp add: str_join_Nil_Cons str_split_not_Nil)
  next
    case False
    obtain t ts where ts: "str_split sep s = t # ts"
      using str_split_not_Nil [of sep s] by (cases "str_split sep s") auto
    with False Cons.IH show ?thesis
      by (simp add: str_join_Cons_Cons)
  qed
qed

lemma length_str_split: "length (str_split sep s) = Suc (count_list s sep)"
  by (induction s) (auto split: list.splits simp: str_split_not_Nil)

lemma str_split_no_sep: "list_all (\<lambda>t. sep \<notin> set t) (str_split sep s)"
  by (induction s) (auto split: list.splits)

section \<open>One call of \<^verbatim>\<open>executeCommand\<close>, and the events of a call\<close>

lemma filter_launch_announce: "filter is_launch (announce env p l c tr) = filter is_launch tr"
  by (cases l) (simp_all add: announce_def debug_def printEnv_call_def)

lemma filter_printEnv_announce:
  "filter is_printEnv (announce env p l c tr) =
     filter is_printEnv tr @ (if p then [PrintEnv env l] else [])"
  by (cases l) (simp_all add: announce_def debug_def printEnv_call_def)

lemma executeCommand_success:
  assumes "child w command env tr = Exited 0 out"
  shows "executeCommand w command env printEnv logger tr =
    (Inr (str_strip out), announce (effective_env w env) printEnv logger command tr @
       [CheckOutput (popen_args (normalize_command command)) (effective_env w env)])"
  using assms by (simp add: executeCommand_def check_output_def launches_announce child_def Let_def)

lemma executeCommand_nonzero:
  assumes "child w command env tr = Exited rc out" and "rc \<noteq> 0" and "strings_only command"
  shows "executeCommand w command env printEnv logger tr =
    (Inl (CommandFailedError (''Failed to execute command: '' @ command_text command)),
     announce (effective_env w env) printEnv logger command tr @
       [CheckOutput (popen_args (normalize_command command)) (effective_env w env)])"
  using assms
  by (simp add: executeCommand_def check_output_def launches_announce child_def Let_def
      failed_to_execute_eq raise_CommandFailedError_def)

lemma executeCommand_launch_failure:
  assumes "child w command env tr = LaunchFailure cls msg"
  shows "executeCommand w command env printEnv logger tr =
    (Inl (PyError cls msg), announce (effective_env w env) printEnv logger command tr @
       [CheckOutput (popen_args (normalize_command command)) (effective_env w env)])"
  using assms by (simp add: executeCommand_def check_output_def launches_announce child_def Let_def)

text \<open>Whatever the child does, each call launches once, after the announcements.\<close>

lemma executeCommand_interrupted:
  assumes "child w command env tr = Interrupted cls msg"
  shows "executeCommand w command env printEnv logger tr =
    (Inl (NonException cls msg), announce (effective_env w env) printEnv logger command tr @
       [CheckOutput (popen_args (normalize_command command)) (effective_env w env)])"
  using assms by (simp add: executeCommand_def check_output_def launches_announce child_def Let_def)

lemma executeCommand_events:
  "snd (executeCommand w command env printEnv logger tr) =
     announce (effective_env w env) printEnv logger command tr @
       [CheckOutput (popen_args (normalize_command command)) (effective_env w env)]"
proof (cases "child w command env tr")
  case (Exited rc out)
  then show ?thesis
    by (cases "rc = 0")
      (simp_all add: executeCommand_def check_output_def launches_announce child_def Let_def)
next
  case (LaunchFailure cls msg)
  then show ?thesis by (simp add: executeCommand_launch_failure)
next
  case (Interrupted cls msg)
  then show ?thesis by (simp add: executeCommand_interrupted)
qed

lemma runWithOutput_events:
  "\<exists>logged. snd (runWithOutput w command env printEnv logger tr) =
     announce (effective_env w env) printEnv logger command tr @
       CheckCall (popen_args (normalize_command command)) (effective_env w env) # logged \<and>
     list_all (\<lambda>e. \<exists>l m. e = LogException l m) logged"
proof (cases "child w command env tr")
  case (Exited rc out)
  then show ?thesis
    by (cases "rc = 0") (simp_all add: runWithOutput_success runWithOutput_nonzero_events)
next
  case (LaunchFailure cls msg)
  let ?launched = "announce (effective_env w env) printEnv logger command tr @
        [CheckCall (popen_args (normalize_command command)) (effective_env w env)]"
  obtain e' logged where
    handler: "log_and_reraise w logger (normalize_command command) (PyError cls msg) ?launched =
      (Inl e' :: exn + unit, ?launched @ logged)"
    and logged: "list_all (\<lambda>ev. \<exists>l m. ev = LogException l m) logged"
    using log_and_reraise_logged by blast
  have "runWithOutput w command env printEnv logger tr =
      log_and_reraise w logger (normalize_command command) (PyError cls msg) ?launched"
    using LaunchFailure
    by (simp add: runWithOutput_def check_call_def launches_announce child_def Let_def)
  then have "snd (runWithOutput w command env printEnv logger tr) = ?launched @ logged"
    by (simp add: handler)
  with logged show ?thesis by auto
next
  case (Interrupted cls msg)
  then show ?thesis by (simp add: runWithOutput_interrupted)
qed

lemma list_all_takeWhile: "list_all P (takeWhile P xs)"
  by (induction xs) simp_all

section \<open>Runs of \<^verbatim>\<open>runWithRetries\<close>\<close>



lemma runWithRetries_exhausted:
  assumes "\<forall>i<k. fails (launcher w i (popen_args (normalize_command command)) (os_environ w))"
    and "0 \<le> delay" and "strings_only command"
  shows "runWithRetries w command (int k) delay printEnv logger [] =
    (Inl (PyError ''TypeError'' ''float argument required, not str''),
     after_failures w command delay printEnv logger k 0 [])"
proof -
  let ?tr = "after_failures w command delay printEnv logger k 0 []"
  have "launches [] = 0" by (simp add: launches_def)
  with assms(1) have "\<forall>i<k. fails (launcher w (launches [] + i)
      (popen_args (normalize_command command)) (os_environ w))" by simp
  then have "attempt_loop w command (int k) delay printEnv logger 0 [] =
      attempt_loop w command (int k) delay printEnv logger (0 + int k) ?tr"
    using assms(2,3) by (intro attempt_loop_failures) auto
  also have "\<dots> = (Exhausted, ?tr)"
    by (intro attempt_loop_exhausted) simp
  finally show ?thesis
    using assms(3)
    by (simp add: runWithRetries_def failed_after_eq raise_CommandFailedError_def)
qed







section \<open>The properties\<close>

text \<open>
  C1. When every launch exits with a non-zero status (the command then consists of
  strings, or nothing would have been launched),
  \<^verbatim>\<open>runWithRetries(command, retries=3, delay=0)\<close> runs the command exactly 3 times and
  does not return normally. What it raises after the loop is not \<^verbatim>\<open>CommandFailedError\<close>:
  computing the message \<^verbatim>\<open>"% failed after %s attempts" % (command, retries)\<close> raises
  \<^verbatim>\<open>TypeError\<close>, so no message with the command and the count is ever built.
\<close>

theorem runWithRetries_exhausted_raises_TypeError:
  assumes "\<forall>n argv env. fails (launcher w n argv env)" and "strings_only command"
  shows "launches (snd (runWithRetries w command 3 0 printEnv logger [])) = 3 \<and>
    fst (runWithRetries w command 3 0 printEnv logger []) =
      Inl (PyError ''TypeError'' ''float argument required, not str'') \<and>
    (\<forall>m. fst (runWithRetries w command 3 0 printEnv logger []) \<noteq> Inl (CommandFailedError m))"
proof -
  let ?tr = "after_failures w command 0 printEnv logger 3 0 []"
  from assms
  have "\<forall>i<3. fails (launcher w i (popen_args (normalize_command command)) (os_environ w))"
    by simp
  then have "runWithRetries w command (int 3) 0 printEnv logger [] =
      (Inl (PyError ''TypeError'' ''float argument required, not str''), ?tr)"
    using assms(2) by (intro runWithRetries_exhausted) auto
  moreover have "launches ?tr = launches [] + 3"
    by (rule launches_after_failures)
  ultimately show ?thesis by (simp add: launches_def)
qed

theorem runWithRetries_exhausted_raises_TypeError_witness:
  "runWithRetries always_failing (RawCommand ''false'') 3 0 False None [] =
     (Inl (PyError ''TypeError'' ''float argument required, not str''),
      [CheckCall [Str ''false''] [], Sleep 0, CheckCall [Str ''false''] [], Sleep 0,
       CheckCall [Str ''false''] [], Sleep 0])"
proof -
  have h: "\<forall>n argv env. fails (launcher always_failing n argv env)"
    by (simp add: always_failing_def)
  have s: "strings_only (RawCommand ''false'')"
    by (simp add: strings_only_def)
  have "fst (runWithRetries always_failing (RawCommand ''false'') 3 0 False None []) =
      Inl (PyError ''TypeError'' ''float argument required, not str'')"
    using runWithRetries_exhausted_raises_TypeError [OF h s, of False None]
    by simp
  moreover have "snd (runWithRetries always_failing (RawCommand ''false'') 3 0 False None []) =
      [CheckCall [Str ''false''] [], Sleep 0, CheckCall [Str ''false''] [], Sleep 0,
       CheckCall [Str ''false''] [], Sleep 0]"
    by code_simp
  ultimately show ?thesis by (simp add: prod_eq_iff)
qed

text \<open>
  C2, as the code has it. A command given as one string is stripped of leading and
  trailing whitespace and then split at every single space, \<^verbatim>\<open>split(" ")\<close>: the tokens
  joined by single spaces give the stripped text back, no token holds a space, and there
  is one token more than there are spaces, so a run of spaces gives empty tokens and a tab
  or a newline inside the text separates nothing. These tokens are what the launcher gets.
  \<^verbatim>\<open>"echo  hello  "\<close> becomes \<^verbatim>\<open>["echo", "", "hello"]\<close>.
\<close>

theorem string_command_split_at_every_space:
  "(\<exists>ts. normalize_command (RawCommand s) = TokenizedCommand (map Str ts) \<and>
      filter is_launch (snd (executeCommand w (RawCommand s) env printEnv logger [])) =
        [CheckOutput (map Str ts) (effective_env w env)] \<and>
      filter is_launch (snd (runWithOutput w (RawCommand s) env printEnv logger [])) =
        [CheckCall (map Str ts) (effective_env w env)] \<and>
      str_join '' '' ts = str_strip s \<and>
      list_all (\<lambda>t. CHR '' '' \<notin> set t) ts \<and>
      length ts = Suc (count_list (str_strip s) CHR '' '')) \<and>
   normalize_command (RawCommand ''echo  hello  '') =
     TokenizedCommand [Str ''echo'', Str [], Str ''hello'']"
proof (intro conjI exI [of _ "str_split CHR '' '' (str_strip s)"])
  let ?ts = "str_split CHR '' '' (str_strip s)"
  show norm: "normalize_command (RawCommand s) = TokenizedCommand (map Str ?ts)"
    by (simp add: normalize_command_def)
  then have args: "popen_args (normalize_command (RawCommand s)) = map Str ?ts"
    by (simp add: popen_args_def)
  show "filter is_launch (snd (executeCommand w (RawCommand s) env printEnv logger [])) =
      [CheckOutput (map Str ?ts) (effective_env w env)]"
    by (simp add: executeCommand_events filter_launch_announce args)
  obtain logged where
    "snd (runWithOutput w (RawCommand s) env printEnv logger []) =
       announce (effective_env w env) printEnv logger (RawCommand s) [] @
         CheckCall (map Str ?ts) (effective_env w env) # logged"
    and "list_all (\<lambda>e. \<exists>l m. e = LogException l m) logged"
    using runWithOutput_events [of w "RawCommand s" env printEnv logger "[]"]
    unfolding args by blast
  moreover from this(2) have "filter is_launch logged = []"
    by (induction logged) auto
  ultimately show "filter is_launch (snd (runWithOutput w (RawCommand s) env printEnv logger [])) =
      [CheckCall (map Str ?ts) (effective_env w env)]"
    by (simp add: filter_launch_announce)
  show "str_join '' '' ?ts = str_strip s"
    by (rule str_join_split)
  show "list_all (\<lambda>t. CHR '' '' \<notin> set t) ?ts"
    by (rule str_split_no_sep)
  show "length ?ts = Suc (count_list (str_strip s) CHR '' '')"
    by (rule length_str_split)
  show "normalize_command (RawCommand ''echo  hello  '') =
      TokenizedCommand [Str ''echo'', Str [], Str ''hello'']"
    by (simp add: normalize_command_def str_strip_def str_lstrip_def str_rstrip_def isspace_def)
qed

theorem string_command_counterexample:
  "snd (executeCommand echo_world (RawCommand ''echo  hello  '') None False None []) =
     [CheckOutput [Str ''echo'', Str [], Str ''hello''] []] \<and>
   normalize_command (RawCommand ''echo  hello  '') \<noteq>
     TokenizedCommand [Str ''echo'', Str ''hello'']"
proof
  show "snd (executeCommand echo_world (RawCommand ''echo  hello  '') None False None []) =
     [CheckOutput [Str ''echo'', Str [], Str ''hello''] []]"
    by code_simp
  show "normalize_command (RawCommand ''echo  hello  '') \<noteq>
     TokenizedCommand [Str ''echo'', Str ''hello'']"
    by (simp add: normalize_command_def str_strip_def str_lstrip_def str_rstrip_def isspace_def)
qed

text \<open>
  C3. When the child of a command given as a string exits with a non-zero status,
  \<^verbatim>\<open>executeCommand\<close> and \<^verbatim>\<open>runWithOutput\<close> raise \<^verbatim>\<open>CommandFailedError\<close> with the
  message \<^verbatim>\<open>Failed to execute command: \<close> followed by the command text without its
  leading and trailing whitespace, not by the literal text: when the handler runs,
  \<^verbatim>\<open>command\<close> is already the list of tokens, and its string branch is never taken.
\<close>

theorem failure_message_has_trimmed_command:
  assumes "child w (RawCommand s) env tr = Exited rc out" and "rc \<noteq> 0"
  shows "fst (executeCommand w (RawCommand s) env printEnv logger tr) =
      Inl (CommandFailedError (''Failed to execute command: '' @ str_strip s)) \<and>
    fst (runWithOutput w (RawCommand s) env printEnv logger tr) =
      Inl (CommandFailedError (''Failed to execute command: '' @ str_strip s))"
proof -
  have "command_text (RawCommand s) = str_strip s"
    by (simp add: command_text_def popen_args_def normalize_command_def strings_of_map_Str
        str_join_split)
  moreover have strs: "strings_only (RawCommand s)"
    by (simp add: strings_only_def)
  ultimately show ?thesis
    by (simp add: executeCommand_nonzero [OF assms strs] runWithOutput_nonzero [OF assms strs])
qed

theorem failure_message_has_trimmed_command_witness:
  "fst (executeCommand always_failing (RawCommand ''false '') None False None []) =
      Inl (CommandFailedError ''Failed to execute command: false'') \<and>
   fst (runWithOutput always_failing (RawCommand ''false '') None False None []) =
      Inl (CommandFailedError ''Failed to execute command: false'') \<and>
   \<not> sublist ''false '' ''Failed to execute command: false''"
proof -
  have h: "child always_failing (RawCommand ''false '') None [] = Exited 1 []"
    by (simp add: child_def always_failing_def)
  have "str_strip ''false '' = ''false''"
    by (simp add: str_strip_def str_lstrip_def str_rstrip_def isspace_def)
  moreover have "\<not> sublist ''false '' ''Failed to execute command: false''"
    by (simp add: sublist_code prefix_code)
  ultimately show ?thesis
    using failure_message_has_trimmed_command [OF h, of False None] by simp
qed








text \<open>
  C7. When the child exits with status zero, \<^verbatim>\<open>executeCommand\<close> returns its captured
  standard output without the leading and trailing whitespace: the output is the value
  returned between two runs of whitespace, and the value returned neither begins nor
  ends with whitespace.
\<close>

theorem executeCommand_returns_stripped_output:
  assumes "child w command env tr = Exited 0 out"
  shows "fst (executeCommand w command env printEnv logger tr) = Inr (str_strip out) \<and>
    (\<exists>pre suf. out = pre @ str_strip out @ suf \<and> list_all isspace pre \<and> list_all isspace suf) \<and>
    (str_strip out = [] \<or>
       (\<not> isspace (hd (str_strip out)) \<and> \<not> isspace (last (str_strip out))))"
proof (intro conjI)
  show "fst (executeCommand w command env printEnv logger tr) = Inr (str_strip out)"
    by (simp add: executeCommand_success [OF assms])
  have "list_all isspace (rev (takeWhile isspace (rev (dropWhile isspace out))))"
    using list_all_takeWhile [of isspace "rev (dropWhile isspace out)"]
    by (simp add: list_all_iff)
  with str_strip_decomp [of out] list_all_takeWhile [of isspace out]
  show "\<exists>pre suf. out = pre @ str_strip out @ suf \<and> list_all isspace pre \<and> list_all isspace suf"
    by blast
  show "str_strip out = [] \<or>
       (\<not> isspace (hd (str_strip out)) \<and> \<not> isspace (last (str_strip out)))"
    using str_strip_hd [of out] str_strip_last [of out] by blast
qed

theorem executeCommand_returns_stripped_output_witness:
  "child echo_world (RawCommand ''echo hello'') None [] = Exited 0 (''hello'' @ [CHR 10]) \<and>
   fst (executeCommand echo_world (RawCommand ''echo hello'') None False None []) = Inr ''hello''"
proof -
  have h: "child echo_world (RawCommand ''echo hello'') None [] = Exited 0 (''hello'' @ [CHR 10])"
    by (simp add: child_def echo_world_def launches_def popen_args_def normalize_command_def
        str_strip_def str_lstrip_def str_rstrip_def isspace_def)
  have "str_strip (''hello'' @ [CHR 10]) = ''hello''"
    by (simp add: str_strip_def str_lstrip_def str_rstrip_def isspace_def)
  with executeCommand_returns_stripped_output [OF h, of False None] h show ?thesis
    by simp
qed

text \<open>
  C8. A command given as a sequence of tokens reaches the launcher as it is: the launcher
  is asked with exactly these tokens, and the one launch \<^verbatim>\<open>executeCommand\<close> and
  \<^verbatim>\<open>runWithOutput\<close> make carries exactly them.
\<close>

theorem tokenized_command_passed_unmodified:
  "child w (TokenizedCommand ts) env tr = launcher w (launches tr) ts (effective_env w env) \<and>
   filter is_launch (snd (executeCommand w (TokenizedCommand ts) env printEnv logger tr)) =
     filter is_launch tr @ [CheckOutput ts (effective_env w env)] \<and>
   filter is_launch (snd (runWithOutput w (TokenizedCommand ts) env printEnv logger tr)) =
     filter is_launch tr @ [CheckCall ts (effective_env w env)]"
proof -
  have args: "popen_args (normalize_command (TokenizedCommand ts)) = ts"
    by (simp add: popen_args_def normalize_command_def)
  obtain logged where
    "snd (runWithOutput w (TokenizedCommand ts) env printEnv logger tr) =
       announce (effective_env w env) printEnv logger (TokenizedCommand ts) tr @
         CheckCall ts (effective_env w env) # logged"
    and "list_all (\<lambda>e. \<exists>l m. e = LogException l m) logged"
    using runWithOutput_events [of w "TokenizedCommand ts" env printEnv logger tr]
    unfolding args by blast
  moreover from this(2) have "filter is_launch logged = []"
    by (induction logged) auto
  ultimately show ?thesis
    by (simp add: child_def args executeCommand_events filter_launch_announce)
qed

text \<open>
  C9. With \<^verbatim>\<open>printEnv=True\<close>, \<^verbatim>\<open>executeCommand\<close> and \<^verbatim>\<open>runWithOutput\<close> call
  \<^verbatim>\<open>diagnostics.printEnv\<close> exactly once, with the effective environment (the \<^verbatim>\<open>env\<close>
  argument, or \<^verbatim>\<open>os.environ\<close> by default); with \<^verbatim>\<open>printEnv=False\<close> they do not call it.
\<close>

theorem printEnv_called_once_when_requested:
  "filter is_printEnv (snd (executeCommand w command env printEnv logger tr)) =
     filter is_printEnv tr @ (if printEnv then [PrintEnv (effective_env w env) logger] else []) \<and>
   filter is_printEnv (snd (runWithOutput w command env printEnv logger tr)) =
     filter is_printEnv tr @ (if printEnv then [PrintEnv (effective_env w env) logger] else []) \<and>
   effective_env w None = os_environ w \<and> effective_env w (Some e) = e"
proof -
  obtain logged where
    "snd (runWithOutput w command env printEnv logger tr) =
       announce (effective_env w env) printEnv logger command tr @
         CheckCall (popen_args (normalize_command command)) (effective_env w env) # logged"
    and "list_all (\<lambda>e. \<exists>l m. e = LogException l m) logged"
    using runWithOutput_events [of w command env printEnv logger tr] by blast
  moreover from this(2) have "filter is_printEnv logged = []"
    by (induction logged) auto
  ultimately show ?thesis
    by (simp add: executeCommand_events filter_printEnv_announce effective_env_def)
qed

text \<open>
  C10. With \<^verbatim>\<open>retries\<close> at most 0, \<^verbatim>\<open>runWithRetries\<close> makes no attempt: nothing is
  launched, nothing is logged and there is no sleep. It goes straight to the lines after
  the loop, which raise; it does not return normally.
\<close>

theorem runWithRetries_makes_no_attempt:
  assumes "retries \<le> 0"
  shows "snd (runWithRetries w command retries delay printEnv logger tr) = tr \<and>
    fst (runWithRetries w command retries delay printEnv logger tr) =
      raise_CommandFailedError (failed_after w command retries) \<and>
    (\<exists>e. fst (runWithRetries w command retries delay printEnv logger tr) = Inl e)"
proof -
  from assms have "\<not> 0 < retries" by simp
  then have "attempt_loop w command retries delay printEnv logger 0 tr = (Exhausted, tr)"
    by (rule attempt_loop_exhausted)
  then show ?thesis
    using raise_CommandFailedError_raises [of "failed_after w command retries"]
    by (simp add: runWithRetries_def)
qed

theorem runWithRetries_makes_no_attempt_witness:
  "(0::int) \<le> 0 \<and>
   runWithRetries always_failing (RawCommand ''make'') 0 5 True (Some ''log'') [] =
     (Inl (PyError ''TypeError'' ''float argument required, not str''), [])"
proof -
  have h: "(0::int) \<le> 0" by simp
  from runWithRetries_makes_no_attempt [OF h, of always_failing "RawCommand ''make''" 5 True "Some ''log''" "[]"]
  show ?thesis
    by (simp add: failed_after_eq strings_only_def raise_CommandFailedError_def prod_eq_iff)
qed

end
